theory Spec2Isabelle
  imports Main "HOL-Library.Sublist"
begin

section \<open>The rule switch-exhaustiveness-check\<close>

text \<open>
  A shallow embedding of \<^verbatim>\<open>packages/eslint-plugin/src/rules/switch-exhaustiveness-check.ts\<close>.
  The type checker, the AST and the source-code token stream are capabilities the rule
  calls into; they are collected in the record \<open>ruleContext\<close>, the closure of the
  rule's \<^verbatim>\<open>create\<close> function.
\<close>

subsection \<open>Data model\<close>

text \<open>
  A \<^verbatim>\<open>ts.Type\<close> is an object of the type checker. The rule puts such objects in a
  JavaScript \<^verbatim>\<open>Set\<close> and asks \<^verbatim>\<open>has\<close>, which compares object identity; the model
  therefore holds a handle, and equality of handles is identity of the objects. All
  properties of a type are read through the context. An expression is an AST node, again
  a handle.
\<close>

datatype tsType = TsType nat

datatype expression = Expression nat

record token =
  token_range :: "nat \<times> nat"

record baseNode =
  loc_start_column :: nat

record switchCase = baseNode +
  test :: "expression option"

record switchStatement = baseNode +
  discriminant :: expression
  cases :: "switchCase list"

datatype messageIds = SwitchIsNotExhaustive | AddMissingCases

text \<open>
  The non-null assertions on the two brace tokens are erased at run time: reading
  \<^verbatim>\<open>range\<close> of \<^verbatim>\<open>null\<close> throws a \<^verbatim>\<open>TypeError\<close>.
\<close>

datatype error = TypeError

text \<open>The two calls the rule makes on the fixer.\<close>

datatype ruleFix =
    InsertTextAfter switchCase string
  | ReplaceTextRange "nat \<times> nat" string

record suggestion =
  suggestion_messageId :: messageIds
  suggestion_fix :: "error + ruleFix"

record reportDescriptor =
  report_node :: expression
  messageId :: messageIds
  missingBranches :: string
  suggest :: "suggestion list"

text \<open>
  The closure of \<^verbatim>\<open>create\<close>: the option, the parser services and type checker
  (\<^verbatim>\<open>getConstrainedTypeAtLocation\<close>, \<^verbatim>\<open>type.isUnion()\<close>, \<^verbatim>\<open>type.isIntersection()\<close>,
  \<^verbatim>\<open>type.getSymbol()?.escapedName\<close>, \<^verbatim>\<open>checker.typeToString\<close>), the two functions of
  ts-api-utils (\<^verbatim>\<open>unionTypeParts\<close>, \<^verbatim>\<open>isTypeFlagSet\<close> at \<^verbatim>\<open>ESSymbolLike\<close>),
  \<^verbatim>\<open>requiresQuoting\<close> at the compiler's target, and
  \<^verbatim>\<open>sourceCode.getTokenAfter\<close> at the two brace filters.
\<close>

record ruleContext =
  requireDefaultForNonUnion :: bool
  getConstrainedTypeAtLocation :: "expression \<Rightarrow> tsType"
  isUnion :: "tsType \<Rightarrow> bool"
  isIntersection :: "tsType \<Rightarrow> bool"
  getSymbolEscapedName :: "tsType \<Rightarrow> string option"
  typeToString :: "tsType \<Rightarrow> string"
  unionTypeParts :: "tsType \<Rightarrow> tsType list"
  isESSymbolLike :: "tsType \<Rightarrow> bool"
  requiresQuoting :: "string \<Rightarrow> bool"
  getOpeningBraceAfter :: "expression \<Rightarrow> token option"
  getClosingBraceAfter :: "expression \<Rightarrow> token option"

subsection \<open>Strings\<close>

text \<open>\<^verbatim>\<open>s.replace(/c/g, r)\<close> for a one-character pattern.\<close>

definition replaceAll :: "char \<Rightarrow> string \<Rightarrow> string \<Rightarrow> string" where
  "replaceAll c r s = concat (map (\<lambda>x. if x = c then r else [x]) s)"

text \<open>\<^verbatim>\<open>Array.prototype.join\<close>.\<close>

fun join :: "string \<Rightarrow> string list \<Rightarrow> string" where
  "join sep [] = []"
| "join sep [x] = x"
| "join sep (x # y # ys) = x @ sep @ join sep (y # ys)"

text \<open>\<^verbatim>\<open>' '.repeat(n)\<close>.\<close>

definition repeatSpace :: "nat \<Rightarrow> string" where
  "repeatSpace n = replicate n (CHR '' '')"

definition backslash :: char where
  "backslash = CHR 0x5C"

definition singleQuote :: char where
  "singleQuote = CHR 0x27"

definition newline :: char where
  "newline = CHR 0x0A"

definition carriageReturn :: char where
  "carriageReturn = CHR 0x0D"

subsection \<open>fixSwitch\<close>

text \<open>
  Lines 95 to 109: the test of the generated case. \<^verbatim>\<open>symbolName &&\<close> holds for a
  defined, non-empty string; \<^verbatim>\<open>missingBranchName || missingBranchName === ''\<close> for
  any defined string.
\<close>

definition caseTest :: "ruleContext \<Rightarrow> string option \<Rightarrow> tsType \<Rightarrow> string" where
  "caseTest ctx symbolName missingBranchType =
     (let missingBranchName = getSymbolEscapedName ctx missingBranchType;
          caseTest = typeToString ctx missingBranchType
      in case symbolName of
           None \<Rightarrow> caseTest
         | Some discriminantName \<Rightarrow>
             if discriminantName = [] then caseTest
             else (case missingBranchName of
                     None \<Rightarrow> caseTest
                   | Some name \<Rightarrow>
                       if requiresQuoting ctx name then
                         (let escapedBranchName =
                                replaceAll carriageReturn [backslash, CHR ''r'']
                                  (replaceAll newline [backslash, CHR ''n'']
                                    (replaceAll singleQuote [backslash, singleQuote] name))
                          in discriminantName @ [CHR ''['', singleQuote] @ escapedBranchName
                               @ [singleQuote, CHR '']''])
                       else caseTest))"

text \<open>Lines 111 to 116: the clause pushed for one missing type.\<close>

definition caseClause :: "ruleContext \<Rightarrow> string option \<Rightarrow> tsType \<Rightarrow> string" where
  "caseClause ctx symbolName missingBranchType =
     (let caseTest = caseTest ctx symbolName missingBranchType;
          errorMessage = ''Not implemented yet: '' @ caseTest @ '' case'';
          escapedErrorMessage = replaceAll singleQuote [backslash, singleQuote] errorMessage
      in ''case '' @ caseTest @ '': { throw new Error('' @ [singleQuote]
           @ escapedErrorMessage @ [singleQuote] @ '') }'')"

text \<open>Lines 75 to 117: the loop over the missing types; \<open>None\<close> is the default branch.\<close>

fun missingCases :: "ruleContext \<Rightarrow> string option \<Rightarrow> tsType option list \<Rightarrow> string list" where
  "missingCases ctx symbolName [] = []"
| "missingCases ctx symbolName (None # rest) =
     ''default: { throw new Error('default case') }'' # missingCases ctx symbolName rest"
| "missingCases ctx symbolName (Some missingBranchType # rest) =
     (if isIntersection ctx missingBranchType then missingCases ctx symbolName rest
      else caseClause ctx symbolName missingBranchType # missingCases ctx symbolName rest)"

definition fixSwitch ::
  "ruleContext \<Rightarrow> switchStatement \<Rightarrow> tsType option list \<Rightarrow> string option \<Rightarrow> error + ruleFix" where
  "fixSwitch ctx node missingBranchTypes symbolName =
     (let lastCase =
            (if length (cases node) > 0 then Some (cases node ! (length (cases node) - 1))
             else None);
          caseIndent =
            (case lastCase of
               Some lc \<Rightarrow> repeatSpace (loc_start_column lc)
             | None \<Rightarrow> repeatSpace (loc_start_column node));
          fixString =
            join [newline]
              (map (\<lambda>code. caseIndent @ code) (missingCases ctx symbolName missingBranchTypes))
      in case lastCase of
           Some lc \<Rightarrow> Inr (InsertTextAfter lc (newline # fixString))
         | None \<Rightarrow>
             (case getOpeningBraceAfter ctx (discriminant node) of
                None \<Rightarrow> Inl TypeError
              | Some openingBrace \<Rightarrow>
                  (case getClosingBraceAfter ctx (discriminant node) of
                     None \<Rightarrow> Inl TypeError
                   | Some closingBrace \<Rightarrow>
                       Inr (ReplaceTextRange
                              (fst (token_range openingBrace), snd (token_range closingBrace))
                              (join [newline] [''{'', fixString, caseIndent @ ''}''])))))"

subsection \<open>checkSwitchExhaustive\<close>

text \<open>
  Lines 152 to 162: the loop over the cases. It returns at the first case without a
  test (\<open>None\<close>); otherwise it ends with the set of the types of the tests. The second
  component lists the tests handed to \<^verbatim>\<open>getConstrainedTypeAtLocation\<close>, in call order.
\<close>

fun caseTypesLoop ::
  "ruleContext \<Rightarrow> switchCase list \<Rightarrow> tsType set \<Rightarrow> expression list
     \<Rightarrow> tsType set option \<times> expression list" where
  "caseTypesLoop ctx [] caseTypes resolved = (Some caseTypes, resolved)"
| "caseTypesLoop ctx (switchCase # rest) caseTypes resolved =
     (case test switchCase of
        None \<Rightarrow> (None, resolved)
      | Some e \<Rightarrow>
          caseTypesLoop ctx rest
            (insert (getConstrainedTypeAtLocation ctx e) caseTypes) (resolved @ [e]))"

text \<open>
  Lines 178 to 181: the text of one missing type. A template literal prints a symbol
  name that is \<^verbatim>\<open>undefined\<close> as the word.
\<close>

definition missingTypeText :: "ruleContext \<Rightarrow> tsType \<Rightarrow> string" where
  "missingTypeText ctx missingType =
     (if isESSymbolLike ctx missingType then
        ''typeof '' @ (case getSymbolEscapedName ctx missingType of
                         Some name \<Rightarrow> name
                       | None \<Rightarrow> ''undefined'')
      else typeToString ctx missingType)"

text \<open>Lines 177 to 183: the text of the missing branches.\<close>

definition missingBranchesText :: "ruleContext \<Rightarrow> tsType list \<Rightarrow> string" where
  "missingBranchesText ctx missingBranchTypes =
     join '' | '' (map (missingTypeText ctx) missingBranchTypes)"

text \<open>The reports the function makes on one switch statement, in order.\<close>

definition checkSwitchExhaustive :: "ruleContext \<Rightarrow> switchStatement \<Rightarrow> reportDescriptor list" where
  "checkSwitchExhaustive ctx node =
     (let discriminantType = getConstrainedTypeAtLocation ctx (discriminant node);
          symbolName = getSymbolEscapedName ctx discriminantType
      in if isUnion ctx discriminantType then
           (let unionTypes = unionTypeParts ctx discriminantType
            in case fst (caseTypesLoop ctx (cases node) {} []) of
                 None \<Rightarrow> []
               | Some caseTypes \<Rightarrow>
                   (let missingBranchTypes =
                          filter (\<lambda>unionType. unionType \<notin> caseTypes) unionTypes
                    in if length missingBranchTypes = 0 then []
                       else [\<lparr> report_node = discriminant node,
                               messageId = SwitchIsNotExhaustive,
                               missingBranches = missingBranchesText ctx missingBranchTypes,
                               suggest =
                                 [\<lparr> suggestion_messageId = AddMissingCases,
                                    suggestion_fix =
                                      fixSwitch ctx node (map Some missingBranchTypes) symbolName \<rparr>] \<rparr>]))
         else if requireDefaultForNonUnion ctx then
           (let hasDefault = list_ex (\<lambda>switchCase. test switchCase = None) (cases node)
            in if \<not> hasDefault then
                 [\<lparr> report_node = discriminant node,
                    messageId = SwitchIsNotExhaustive,
                    missingBranches = ''default'',
                    suggest =
                      [\<lparr> suggestion_messageId = AddMissingCases,
                         suggestion_fix = fixSwitch ctx node [None] None \<rparr>] \<rparr>]
               else [])
         else [])"

subsection \<open>A program to run the rule on\<close>

text \<open>
  A small program, for the concrete instances of the theorems below.
  \<^item> type 0 is \<^verbatim>\<open>"a" | "b" | "c"\<close> and types 1, 2 and 3 are its members;
  \<^item> type 4 is \<^verbatim>\<open>string\<close>;
  \<^item> type 10 is \<^verbatim>\<open>enum E { 'a-b', c }\<close> and types 11 and 12 are its members;
  \<^item> type 20 is a union of a branded intersection (21), a unique symbol declared as
    \<^verbatim>\<open>sym\<close> (22) and \<^verbatim>\<open>"b"\<close> (2);
  \<^item> type 30 is the union of two distinct classes, 31 and 32, that are both printed as
    \<^verbatim>\<open>Shape\<close>;
  \<^item> type 40 is declared, after type 0, as \<^verbatim>\<open>"z" | "m" | "a"\<close>; its members are the
    literal types 42, 43 and 1, and the type checker, which keeps the members of a union
    in the order of their creation, lists them as 1, 42, 43;
  \<^item> type 50 is \<^verbatim>\<open>"n" | "e" | "s" | "w"\<close> and types 51 to 54 are its members;
  \<^item> type 60 is \<^verbatim>\<open>"a" | symbol\<close>; its member 61 is the primitive type
    \<^verbatim>\<open>symbol\<close>, which has the symbol-like flag and no symbol.

  Expressions 1, 2 and 3 are the literals \<^verbatim>\<open>"a"\<close>, \<^verbatim>\<open>"b"\<close> and \<^verbatim>\<open>"c"\<close>, expression 4 is
  a constant of type \<^verbatim>\<open>"a"\<close>, expression 7 is \<^verbatim>\<open>E.c\<close>, expressions 10 and 11 are two
  expressions of the type 31, expression 12 is \<^verbatim>\<open>sym\<close>, expressions 14, 15 and 16 are the literals \<^verbatim>\<open>"m"\<close>,
  \<^verbatim>\<open>"n"\<close> and \<^verbatim>\<open>"s"\<close>; expressions 0, 5, 6, 8, 9, 13, 17 and 18 are discriminants of
  the types 0, 4, 10, 20, 30, 40, 50 and 60.
\<close>

fun ex_typeAt :: "expression \<Rightarrow> tsType" where
  "ex_typeAt (Expression n) =
     TsType (if n = 0 then 0 else if n = 1 then 1 else if n = 2 then 2 else if n = 3 then 3
             else if n = 4 then 1 else if n = 5 then 4 else if n = 6 then 10
             else if n = 7 then 12 else if n = 8 then 20 else if n = 9 then 30
             else if n = 10 then 31 else if n = 11 then 31 else if n = 12 then 22
             else if n = 13 then 40 else if n = 14 then 43 else if n = 15 then 51
             else if n = 16 then 53 else if n = 17 then 50 else if n = 18 then 60 else 4)"

fun ex_isUnion :: "tsType \<Rightarrow> bool" where
  "ex_isUnion (TsType n) =
     (n = 0 \<or> n = 10 \<or> n = 20 \<or> n = 30 \<or> n = 40 \<or> n = 50 \<or> n = 60)"

fun ex_isIntersection :: "tsType \<Rightarrow> bool" where
  "ex_isIntersection (TsType n) = (n = 21)"

fun ex_escapedName :: "tsType \<Rightarrow> string option" where
  "ex_escapedName (TsType n) =
     (if n = 10 then Some ''E'' else if n = 11 then Some ''a-b'' else if n = 12 then Some ''c''
      else if n = 22 then Some ''sym'' else None)"

fun ex_typeToString :: "tsType \<Rightarrow> string" where
  \<open>ex_typeToString (TsType n) =
     (if n = 0 then ''"a" | "b" | "c"'' else if n = 1 then ''"a"'' else if n = 2 then ''"b"''
      else if n = 3 then ''"c"'' else if n = 10 then ''E'' else if n = 11 then ''E["a-b"]''
      else if n = 12 then ''E.c'' else if n = 21 then ''string & { __brand: void; }''
      else if n = 22 then ''unique symbol'' else if n = 30 then ''Shape | Shape''
      else if n = 31 then ''Shape'' else if n = 32 then ''Shape''
      else if n = 40 then ''"z" | "m" | "a"'' else if n = 42 then ''"z"''
      else if n = 43 then ''"m"'' else if n = 50 then ''"n" | "e" | "s" | "w"''
      else if n = 51 then ''"n"'' else if n = 52 then ''"e"'' else if n = 53 then ''"s"''
      else if n = 54 then ''"w"'' else if n = 60 then ''symbol | "a"''
      else if n = 61 then ''symbol'' else ''string'')\<close>

fun ex_unionTypeParts :: "tsType \<Rightarrow> tsType list" where
  "ex_unionTypeParts (TsType n) =
     (if n = 0 then [TsType 1, TsType 2, TsType 3]
      else if n = 10 then [TsType 11, TsType 12]
      else if n = 20 then [TsType 21, TsType 22, TsType 2]
      else if n = 30 then [TsType 31, TsType 32]
      else if n = 40 then [TsType 1, TsType 42, TsType 43]
      else if n = 50 then [TsType 51, TsType 52, TsType 53, TsType 54]
      else if n = 60 then [TsType 1, TsType 61]
      else [TsType n])"

text \<open>
  The members of a union in the order its declaration writes them. The rule has no
  access to it; it differs from the type checker's list for type 40.
\<close>

fun ex_declaredMembers :: "tsType \<Rightarrow> tsType list" where
  "ex_declaredMembers (TsType n) =
     (if n = 40 then [TsType 42, TsType 43, TsType 1] else ex_unionTypeParts (TsType n))"

fun ex_isESSymbolLike :: "tsType \<Rightarrow> bool" where
  "ex_isESSymbolLike (TsType n) = (n = 22 \<or> n = 61)"

definition ex_requiresQuoting :: "string \<Rightarrow> bool" where
  "ex_requiresQuoting name =
     (name = [] \<or> list_ex (\<lambda>c. c \<notin> set ''abcdefghijklmnopqrstuvwxyzABCDEFGHIJKLMNOPQRSTUVWXYZ_$'') name)"

definition ex_ctx :: ruleContext where
  "ex_ctx =
     \<lparr> requireDefaultForNonUnion = True,
       getConstrainedTypeAtLocation = ex_typeAt,
       isUnion = ex_isUnion,
       isIntersection = ex_isIntersection,
       getSymbolEscapedName = ex_escapedName,
       typeToString = ex_typeToString,
       unionTypeParts = ex_unionTypeParts,
       isESSymbolLike = ex_isESSymbolLike,
       requiresQuoting = ex_requiresQuoting,
       getOpeningBraceAfter = (\<lambda>e. Some \<lparr> token_range = (11, 12) \<rparr>),
       getClosingBraceAfter = (\<lambda>e. Some \<lparr> token_range = (13, 14) \<rparr>) \<rparr>"

definition ex_case :: "nat \<Rightarrow> nat \<Rightarrow> switchCase" where
  "ex_case column n = \<lparr> loc_start_column = column, test = Some (Expression n) \<rparr>"

definition ex_default :: "nat \<Rightarrow> switchCase" where
  "ex_default column = \<lparr> loc_start_column = column, test = None \<rparr>"

definition ex_switch :: "nat \<Rightarrow> switchCase list \<Rightarrow> switchStatement" where
  "ex_switch n cs = \<lparr> loc_start_column = 0, discriminant = Expression n, cases = cs \<rparr>"

subsection \<open>Vocabulary of the statements\<close>

text \<open>
  The variants a list of cases covers: the types of the tests of its cases. The
  members of a list that no case covers, in the order of the list. The report on a union
  with the missing types \<open>missing\<close> is written out once.
\<close>

definition coveredVariants :: "ruleContext \<Rightarrow> switchCase list \<Rightarrow> tsType set" where
  "coveredVariants ctx cs =
     set (map (getConstrainedTypeAtLocation ctx) (List.map_filter test cs))"

definition uncovered :: "ruleContext \<Rightarrow> switchCase list \<Rightarrow> tsType list \<Rightarrow> tsType list" where
  "uncovered ctx cs members = filter (\<lambda>v. v \<notin> coveredVariants ctx cs) members"

abbreviation missingVariantsReport ::
  "ruleContext \<Rightarrow> switchStatement \<Rightarrow> tsType list \<Rightarrow> reportDescriptor" where
  "missingVariantsReport ctx node missing \<equiv>
     \<lparr> report_node = discriminant node,
       messageId = SwitchIsNotExhaustive,
       missingBranches = missingBranchesText ctx missing,
       suggest =
         [\<lparr> suggestion_messageId = AddMissingCases,
            suggestion_fix =
              fixSwitch ctx node (map Some missing)
                (getSymbolEscapedName ctx
                   (getConstrainedTypeAtLocation ctx (discriminant node))) \<rparr>] \<rparr>"

section \<open>Properties\<close>

subsection \<open>The loop over the cases\<close>

lemma coveredVariants_iff:
  "t \<in> coveredVariants ctx cs \<longleftrightarrow>
     (\<exists>c \<in> set cs. \<exists>e. test c = Some e \<and> getConstrainedTypeAtLocation ctx e = t)"
  by (induction cs) (auto simp add: coveredVariants_def map_filter_simps split: option.splits)

lemma coveredVariants_Nil: "coveredVariants ctx [] = {}"
  by (simp add: coveredVariants_def map_filter_simps)

lemma coveredVariants_Cons:
  "test c = Some e \<Longrightarrow>
   coveredVariants ctx (c # cs)
     = insert (getConstrainedTypeAtLocation ctx e) (coveredVariants ctx cs)"
  by (simp add: coveredVariants_def map_filter_simps)

lemma coveredVariants_append:
  "coveredVariants ctx (xs @ ys) = coveredVariants ctx xs \<union> coveredVariants ctx ys"
  by (induction xs) (simp_all add: coveredVariants_def map_filter_simps split: option.splits)

lemma coveredVariants_set:
  "set cs' = set cs \<Longrightarrow> coveredVariants ctx cs' = coveredVariants ctx cs"
  by (rule set_eqI) (simp add: coveredVariants_iff)

lemma caseTypesLoop_no_default:
  "\<forall>c \<in> set cs. test c \<noteq> None \<Longrightarrow>
   caseTypesLoop ctx cs S tr = (Some (S \<union> coveredVariants ctx cs), tr @ List.map_filter test cs)"
proof (induction cs arbitrary: S tr)
  case Nil
  then show ?case by (simp add: map_filter_simps coveredVariants_Nil)
next
  case (Cons c cs)
  from Cons.prems obtain e where e: "test c = Some e" by auto
  from Cons.prems have rest: "\<forall>c \<in> set cs. test c \<noteq> None" by simp
  show ?case
    using Cons.IH [OF rest] e by (simp add: map_filter_simps coveredVariants_Cons)
qed

lemma caseTypesLoop_default:
  "\<forall>c \<in> set pre. test c \<noteq> None \<Longrightarrow> test d = None \<Longrightarrow>
   caseTypesLoop ctx (pre @ d # post) S tr = (None, tr @ List.map_filter test pre)"
proof (induction pre arbitrary: S tr)
  case Nil
  then show ?case by (simp add: map_filter_simps)
next
  case (Cons c pre)
  from Cons.prems obtain e where e: "test c = Some e" by auto
  from Cons.prems have rest: "\<forall>c \<in> set pre. test c \<noteq> None" by simp
  show ?case
    using Cons.IH [OF rest Cons.prems(2)] e by (simp add: map_filter_simps)
qed

lemma first_default:
  assumes "\<exists>c \<in> set cs. test c = None"
  shows "\<exists>pre d post. cs = pre @ d # post \<and> test d = None \<and> (\<forall>c \<in> set pre. test c \<noteq> None)"
proof -
  from assms obtain pre d post
    where "cs = pre @ d # post" "test d = None" "\<forall>c \<in> set pre. \<not> test c = None"
    using split_list_first_prop [of cs "\<lambda>c. test c = None"] by blast
  then show ?thesis by blast
qed

lemma check_union_no_default:
  assumes "isUnion ctx (getConstrainedTypeAtLocation ctx (discriminant node))"
      and "\<forall>c \<in> set (cases node). test c \<noteq> None"
  shows "checkSwitchExhaustive ctx node =
           (let missing =
                  filter (\<lambda>v. v \<notin> coveredVariants ctx (cases node))
                    (unionTypeParts ctx (getConstrainedTypeAtLocation ctx (discriminant node)))
            in if missing = [] then [] else [missingVariantsReport ctx node missing])"
  using assms(1) caseTypesLoop_no_default [OF assms(2), of ctx "{}" "[]"]
  by (simp add: checkSwitchExhaustive_def Let_def)

lemma missingCases_types:
  "missingCases ctx symbolName (map Some ts)
     = map (caseClause ctx symbolName) (filter (\<lambda>t. \<not> isIntersection ctx t) ts)"
  by (induction ts) simp_all

lemma check_default:
  assumes "\<exists>c \<in> set (cases node). test c = None"
  shows "checkSwitchExhaustive ctx node = []"
proof -
  from first_default [OF assms] obtain pre d post
    where "cases node = pre @ d # post" "test d = None" "\<forall>c \<in> set pre. test c \<noteq> None"
    by blast
  then have "fst (caseTypesLoop ctx (cases node) {} []) = None"
    using caseTypesLoop_default [of pre d ctx post "{}" "[]"] by simp
  moreover have "list_ex (\<lambda>switchCase. test switchCase = None) (cases node)"
    using assms by (simp add: list_ex_iff)
  ultimately show ?thesis
    by (simp add: checkSwitchExhaustive_def Let_def)
qed

subsection \<open>Exhaustiveness of a switch on a union\<close>

text \<open>
  Claim C1. On a switch whose discriminant has a union type and that has no default
  clause, nothing is reported if and only if every member of the union is the type of the
  test of some case. Otherwise one report is made, for the members of the union that
  are the type of no test, which as a set are the members of the union minus the covered
  types.
\<close>

theorem union_exhaustive_iff_covered:
  assumes "isUnion ctx (getConstrainedTypeAtLocation ctx (discriminant node))"
      and "\<forall>c \<in> set (cases node). test c \<noteq> None"
  shows "(let allVariants =
                unionTypeParts ctx (getConstrainedTypeAtLocation ctx (discriminant node));
              missing = filter (\<lambda>v. v \<notin> coveredVariants ctx (cases node)) allVariants
          in (checkSwitchExhaustive ctx node = [] \<longleftrightarrow>
                (\<forall>v \<in> set allVariants. \<exists>c \<in> set (cases node). \<exists>e.
                    test c = Some e \<and> getConstrainedTypeAtLocation ctx e = v))
             \<and> (checkSwitchExhaustive ctx node \<noteq> [] \<longrightarrow>
                  checkSwitchExhaustive ctx node = [missingVariantsReport ctx node missing])
             \<and> set missing = set allVariants - coveredVariants ctx (cases node))"
proof -
  let ?all = "unionTypeParts ctx (getConstrainedTypeAtLocation ctx (discriminant node))"
  let ?missing = "filter (\<lambda>v. v \<notin> coveredVariants ctx (cases node)) ?all"
  have eq: "checkSwitchExhaustive ctx node =
              (if ?missing = [] then [] else [missingVariantsReport ctx node ?missing])"
    using check_union_no_default [OF assms] by (simp add: Let_def)
  have empty: "?missing = [] \<longleftrightarrow>
                 (\<forall>v \<in> set ?all. \<exists>c \<in> set (cases node). \<exists>e.
                     test c = Some e \<and> getConstrainedTypeAtLocation ctx e = v)"
    by (simp add: filter_empty_conv coveredVariants_iff)
  have diff: "set ?missing = set ?all - coveredVariants ctx (cases node)"
    by auto
  from eq empty have iff: "checkSwitchExhaustive ctx node = [] \<longleftrightarrow>
                 (\<forall>v \<in> set ?all. \<exists>c \<in> set (cases node). \<exists>e.
                     test c = Some e \<and> getConstrainedTypeAtLocation ctx e = v)"
    by (simp split: if_splits)
  from eq have rep: "checkSwitchExhaustive ctx node \<noteq> [] \<longrightarrow>
                  checkSwitchExhaustive ctx node = [missingVariantsReport ctx node ?missing]"
    by (simp split: if_splits)
  show ?thesis
    unfolding Let_def using iff rep diff by blast
qed

lemma repeatSpace_simps:
  "repeatSpace 0 = []" "repeatSpace 2 = ''  ''" "repeatSpace 4 = ''    ''"
  by (simp_all add: repeatSpace_def eval_nat_numeral)

lemmas ex_simps =
  ex_ctx_def ex_switch_def ex_case_def ex_default_def ex_requiresQuoting_def
  coveredVariants_def map_filter_simps

theorem union_exhaustive_iff_covered_witness:
  "isUnion ex_ctx (getConstrainedTypeAtLocation ex_ctx (Expression 0))
   \<and> list_all (\<lambda>c. test c \<noteq> None) [ex_case 2 1, ex_case 2 2]
   \<and> checkSwitchExhaustive ex_ctx (ex_switch 0 [ex_case 2 1, ex_case 2 2])
       = [missingVariantsReport ex_ctx (ex_switch 0 [ex_case 2 1, ex_case 2 2]) [TsType 3]]
   \<and> checkSwitchExhaustive ex_ctx (ex_switch 0 [ex_case 2 1, ex_case 2 2, ex_case 2 3]) = []"
proof -
  have u: "isUnion ex_ctx (getConstrainedTypeAtLocation ex_ctx (discriminant (ex_switch 0 cs)))"
    for cs by (simp add: ex_simps)
  have n2: "\<forall>c \<in> set (cases (ex_switch 0 [ex_case 2 1, ex_case 2 2])). test c \<noteq> None"
    by (simp add: ex_simps)
  have n3: "\<forall>c \<in> set (cases (ex_switch 0 [ex_case 2 1, ex_case 2 2, ex_case 2 3])). test c \<noteq> None"
    by (simp add: ex_simps)
  have two: "checkSwitchExhaustive ex_ctx (ex_switch 0 [ex_case 2 1, ex_case 2 2])
       = [missingVariantsReport ex_ctx (ex_switch 0 [ex_case 2 1, ex_case 2 2]) [TsType 3]]"
    using union_exhaustive_iff_covered [OF u n2] by (simp add: Let_def ex_simps)
  have three: "checkSwitchExhaustive ex_ctx (ex_switch 0 [ex_case 2 1, ex_case 2 2, ex_case 2 3]) = []"
    using union_exhaustive_iff_covered [OF u n3] by (simp add: Let_def ex_simps)
  show ?thesis using two three by (simp add: ex_simps)
qed

subsection \<open>A default clause\<close>

text \<open>
  Claim C2. A switch with a default clause among its cases is never reported, whatever
  the type of its discriminant, the option and the other clauses. The loop over the
  cases returns at the first default clause: the only tests it hands to the type
  checker are those of the clauses before it.
\<close>

theorem default_clause_no_report:
  assumes "\<exists>c \<in> set (cases node). test c = None"
  shows "checkSwitchExhaustive ctx node = []
         \<and> (\<exists>pre d post. cases node = pre @ d # post \<and> test d = None
               \<and> (\<forall>c \<in> set pre. test c \<noteq> None)
               \<and> caseTypesLoop ctx (cases node) {} [] = (None, List.map_filter test pre))"
proof -
  from first_default [OF assms] obtain pre d post
    where split: "cases node = pre @ d # post" "test d = None" "\<forall>c \<in> set pre. test c \<noteq> None"
    by blast
  have "caseTypesLoop ctx (cases node) {} [] = (None, List.map_filter test pre)"
    using caseTypesLoop_default [OF split(3) split(2), of ctx post "{}" "[]"] split(1) by simp
  with split check_default [OF assms] show ?thesis by blast
qed

theorem default_clause_no_report_witness:
  "list_ex (\<lambda>c. test c = None) [ex_case 2 1, ex_default 2, ex_case 2 3]
   \<and> checkSwitchExhaustive ex_ctx (ex_switch 0 [ex_case 2 1, ex_default 2, ex_case 2 3]) = []
   \<and> checkSwitchExhaustive ex_ctx (ex_switch 5 [ex_case 2 1, ex_default 2, ex_case 2 3]) = []
   \<and> caseTypesLoop ex_ctx [ex_case 2 1, ex_default 2, ex_case 2 3] {} [] = (None, [Expression 1])"
proof -
  have d: "\<exists>c \<in> set (cases (ex_switch n [ex_case 2 1, ex_default 2, ex_case 2 3])). test c = None"
    for n by (simp add: ex_simps)
  have "checkSwitchExhaustive ex_ctx (ex_switch 0 [ex_case 2 1, ex_default 2, ex_case 2 3]) = []"
    using default_clause_no_report [OF d, of ex_ctx 0] by simp
  moreover have "checkSwitchExhaustive ex_ctx (ex_switch 5 [ex_case 2 1, ex_default 2, ex_case 2 3]) = []"
    using default_clause_no_report [OF d, of ex_ctx 5] by simp
  ultimately show ?thesis by (simp add: ex_simps)
qed

subsection \<open>Order and identity of the missing variants\<close>

text \<open>
  Claim C3, as the code has it. The missing variants are listed in the order of the
  type checker's list of the members of the union (what \<^verbatim>\<open>unionTypeParts\<close> returns): they
  are the members that no test covers, filtered out of that list. The text of the report
  names them in that order and the fix generates their clauses in that order. Two
  switches on the same discriminant whose clauses are the same up to their order have the
  same list of missing variants.
\<close>

theorem missing_in_checker_order:
  assumes "isUnion ctx (getConstrainedTypeAtLocation ctx (discriminant node))"
      and "\<forall>c \<in> set (cases node). test c \<noteq> None"
      and "discriminant node' = discriminant node"
      and "set (cases node') = set (cases node)"
  shows "(let allVariants =
                unionTypeParts ctx (getConstrainedTypeAtLocation ctx (discriminant node));
              symbolName =
                getSymbolEscapedName ctx (getConstrainedTypeAtLocation ctx (discriminant node));
              missing = filter (\<lambda>v. v \<notin> coveredVariants ctx (cases node)) allVariants;
              missing' = filter (\<lambda>v. v \<notin> coveredVariants ctx (cases node')) allVariants
          in missing' = missing
             \<and> subseq missing allVariants
             \<and> checkSwitchExhaustive ctx node =
                 (if missing = [] then []
                  else [\<lparr> report_node = discriminant node,
                          messageId = SwitchIsNotExhaustive,
                          missingBranches = join '' | '' (map (missingTypeText ctx) missing),
                          suggest =
                            [\<lparr> suggestion_messageId = AddMissingCases,
                               suggestion_fix =
                                 fixSwitch ctx node (map Some missing) symbolName \<rparr>] \<rparr>])
             \<and> checkSwitchExhaustive ctx node' =
                 (if missing = [] then []
                  else [\<lparr> report_node = discriminant node',
                          messageId = SwitchIsNotExhaustive,
                          missingBranches = join '' | '' (map (missingTypeText ctx) missing),
                          suggest =
                            [\<lparr> suggestion_messageId = AddMissingCases,
                               suggestion_fix =
                                 fixSwitch ctx node' (map Some missing) symbolName \<rparr>] \<rparr>])
             \<and> missingCases ctx symbolName (map Some missing) =
                 map (caseClause ctx symbolName) (filter (\<lambda>t. \<not> isIntersection ctx t) missing))"
proof -
  have nodef': "\<forall>c \<in> set (cases node'). test c \<noteq> None"
    using assms(2,4) by simp
  have union': "isUnion ctx (getConstrainedTypeAtLocation ctx (discriminant node'))"
    using assms(1,3) by simp
  have cov: "coveredVariants ctx (cases node') = coveredVariants ctx (cases node)"
    using assms(4) by (rule coveredVariants_set)
  show ?thesis
    using check_union_no_default [OF assms(1,2)] check_union_no_default [OF union' nodef']
    by (simp add: Let_def cov assms(3) missingBranchesText_def missingCases_types)
qed

theorem missing_in_checker_order_witness:
  \<open>isUnion ex_ctx (getConstrainedTypeAtLocation ex_ctx (Expression 17))
   \<and> set [ex_case 2 15, ex_case 2 16] = set [ex_case 2 16, ex_case 2 15]
   \<and> unionTypeParts ex_ctx (TsType 50) = [TsType 51, TsType 52, TsType 53, TsType 54]
   \<and> checkSwitchExhaustive ex_ctx (ex_switch 17 [ex_case 2 16, ex_case 2 15]) =
       [\<lparr> report_node = Expression 17,
          messageId = SwitchIsNotExhaustive,
          missingBranches = ''"e" | "w"'',
          suggest =
            [\<lparr> suggestion_messageId = AddMissingCases,
               suggestion_fix =
                 fixSwitch ex_ctx (ex_switch 17 [ex_case 2 16, ex_case 2 15])
                   [Some (TsType 52), Some (TsType 54)] None \<rparr>] \<rparr>]
   \<and> checkSwitchExhaustive ex_ctx (ex_switch 17 [ex_case 2 15, ex_case 2 16]) =
       [\<lparr> report_node = Expression 17,
          messageId = SwitchIsNotExhaustive,
          missingBranches = ''"e" | "w"'',
          suggest =
            [\<lparr> suggestion_messageId = AddMissingCases,
               suggestion_fix =
                 fixSwitch ex_ctx (ex_switch 17 [ex_case 2 15, ex_case 2 16])
                   [Some (TsType 52), Some (TsType 54)] None \<rparr>] \<rparr>]
   \<and> missingCases ex_ctx None [Some (TsType 52), Some (TsType 54)] =
       [''case "e": { throw new Error('Not implemented yet: "e" case') }'',
        ''case "w": { throw new Error('Not implemented yet: "w" case') }'']\<close>
proof -
  have u: "isUnion ex_ctx (getConstrainedTypeAtLocation ex_ctx (discriminant (ex_switch 17 cs)))"
    for cs by (simp add: ex_simps)
  have n: "\<forall>c \<in> set (cases (ex_switch 17 [ex_case 2 16, ex_case 2 15])). test c \<noteq> None"
    by (simp add: ex_simps)
  have d: "discriminant (ex_switch 17 cs') = discriminant (ex_switch 17 cs)"
    for cs cs' by (simp add: ex_simps)
  have p: "set (cases (ex_switch 17 [ex_case 2 15, ex_case 2 16]))
           = set (cases (ex_switch 17 [ex_case 2 16, ex_case 2 15]))"
    by (auto simp add: ex_simps)
  have parts: "unionTypeParts ex_ctx (TsType 50) = [TsType 51, TsType 52, TsType 53, TsType 54]"
    by (simp add: ex_simps)
  have missing:
    "filter (\<lambda>v. v \<notin> coveredVariants ex_ctx (cases (ex_switch 17 [ex_case 2 16, ex_case 2 15])))
       (unionTypeParts ex_ctx
          (getConstrainedTypeAtLocation ex_ctx
             (discriminant (ex_switch 17 [ex_case 2 16, ex_case 2 15]))))
     = [TsType 52, TsType 54]"
    by (simp add: ex_simps)
  have sym: "getSymbolEscapedName ex_ctx
               (getConstrainedTypeAtLocation ex_ctx
                  (discriminant (ex_switch 17 [ex_case 2 16, ex_case 2 15])))
             = None"
    by (simp add: ex_simps)
  have texts: \<open>join '' | '' (map (missingTypeText ex_ctx) [TsType 52, TsType 54]) = ''"e" | "w"''\<close>
    by (simp add: missingTypeText_def ex_simps)
  have clauses: \<open>map (caseClause ex_ctx None)
                   (filter (\<lambda>t. \<not> isIntersection ex_ctx t) [TsType 52, TsType 54]) =
       [''case "e": { throw new Error('Not implemented yet: "e" case') }'',
        ''case "w": { throw new Error('Not implemented yet: "w" case') }'']\<close>
    by (simp add: caseClause_def caseTest_def replaceAll_def singleQuote_def ex_simps)
  note inst = missing_in_checker_order [OF u n d p, unfolded Let_def missing sym texts clauses]
  have isu: "isUnion ex_ctx (getConstrainedTypeAtLocation ex_ctx (Expression 17))"
    by (simp add: ex_simps)
  have perm: "set [ex_case 2 15, ex_case 2 16] = set [ex_case 2 16, ex_case 2 15]"
    by (simp add: insert_commute)
  have dn: "discriminant (ex_switch 17 cs) = Expression 17" for cs
    by (simp add: ex_simps)
  have r1: \<open>checkSwitchExhaustive ex_ctx (ex_switch 17 [ex_case 2 16, ex_case 2 15]) =
       [\<lparr> report_node = Expression 17,
          messageId = SwitchIsNotExhaustive,
          missingBranches = ''"e" | "w"'',
          suggest =
            [\<lparr> suggestion_messageId = AddMissingCases,
               suggestion_fix =
                 fixSwitch ex_ctx (ex_switch 17 [ex_case 2 16, ex_case 2 15])
                   [Some (TsType 52), Some (TsType 54)] None \<rparr>] \<rparr>]\<close>
    using inst [THEN conjunct2, THEN conjunct2, THEN conjunct1] by (simp add: dn)
  have r2: \<open>checkSwitchExhaustive ex_ctx (ex_switch 17 [ex_case 2 15, ex_case 2 16]) =
       [\<lparr> report_node = Expression 17,
          messageId = SwitchIsNotExhaustive,
          missingBranches = ''"e" | "w"'',
          suggest =
            [\<lparr> suggestion_messageId = AddMissingCases,
               suggestion_fix =
                 fixSwitch ex_ctx (ex_switch 17 [ex_case 2 15, ex_case 2 16])
                   [Some (TsType 52), Some (TsType 54)] None \<rparr>] \<rparr>]\<close>
    using inst [THEN conjunct2, THEN conjunct2, THEN conjunct2, THEN conjunct1]
    by (simp add: dn)
  have r3: \<open>missingCases ex_ctx None [Some (TsType 52), Some (TsType 54)] =
       [''case "e": { throw new Error('Not implemented yet: "e" case') }'',
        ''case "w": { throw new Error('Not implemented yet: "w" case') }'']\<close>
    using inst [THEN conjunct2, THEN conjunct2, THEN conjunct2, THEN conjunct2]
    by (simp del: missingCases.simps)
  show ?thesis
    by (rule conjI isu perm parts r1 r2 r3)+
qed

text \<open>
  The order is not the order of the declaration. Type 40 is declared as
  \<^verbatim>\<open>"z" | "m" | "a"\<close> and the type checker lists its members as \<^verbatim>\<open>"a"\<close>, \<^verbatim>\<open>"z"\<close>,
  \<^verbatim>\<open>"m"\<close>. On a switch with the one clause \<^verbatim>\<open>case "m"\<close> the members not covered are, in
  the order of the declaration, \<^verbatim>\<open>"z"\<close> and \<^verbatim>\<open>"a"\<close>; the report and the fix list
  \<^verbatim>\<open>"a"\<close> before \<^verbatim>\<open>"z"\<close>.
\<close>

theorem declaration_order_counterexample:
  \<open>ex_declaredMembers (TsType 40) = [TsType 42, TsType 43, TsType 1]
   \<and> unionTypeParts ex_ctx (TsType 40) = [TsType 1, TsType 42, TsType 43]
   \<and> uncovered ex_ctx [ex_case 2 14] (ex_declaredMembers (TsType 40)) = [TsType 42, TsType 1]
   \<and> missingBranchesText ex_ctx [TsType 42, TsType 1] = ''"z" | "a"''
   \<and> checkSwitchExhaustive ex_ctx (ex_switch 13 [ex_case 2 14]) =
       [\<lparr> report_node = Expression 13,
          messageId = SwitchIsNotExhaustive,
          missingBranches = ''"a" | "z"'',
          suggest =
            [\<lparr> suggestion_messageId = AddMissingCases,
               suggestion_fix =
                 Inr (InsertTextAfter (ex_case 2 14)
                        (newline
                           # ''  case "a": { throw new Error('Not implemented yet: "a" case') }''
                           @ [newline]
                           @ ''  case "z": { throw new Error('Not implemented yet: "z" case') }'')) \<rparr>] \<rparr>]
   \<and> checkSwitchExhaustive ex_ctx (ex_switch 13 [ex_case 2 14]) \<noteq>
       [missingVariantsReport ex_ctx (ex_switch 13 [ex_case 2 14])
          (uncovered ex_ctx [ex_case 2 14] (ex_declaredMembers (TsType 40)))]\<close>
proof -
  have declared: "ex_declaredMembers (TsType 40) = [TsType 42, TsType 43, TsType 1]"
    by simp
  have parts: "unionTypeParts ex_ctx (TsType 40) = [TsType 1, TsType 42, TsType 43]"
    by (simp add: ex_simps)
  have unc: "uncovered ex_ctx [ex_case 2 14] (ex_declaredMembers (TsType 40))
             = [TsType 42, TsType 1]"
    by (simp add: uncovered_def ex_simps)
  have claimed: \<open>missingBranchesText ex_ctx [TsType 42, TsType 1] = ''"z" | "a"''\<close>
    by (simp add: missingBranchesText_def missingTypeText_def ex_simps)
  have u: "isUnion ex_ctx (getConstrainedTypeAtLocation ex_ctx
             (discriminant (ex_switch 13 [ex_case 2 14])))"
    by (simp add: ex_simps)
  have n: "\<forall>c \<in> set (cases (ex_switch 13 [ex_case 2 14])). test c \<noteq> None"
    by (simp add: ex_simps)
  have missing:
    "filter (\<lambda>v. v \<notin> coveredVariants ex_ctx (cases (ex_switch 13 [ex_case 2 14])))
       (unionTypeParts ex_ctx
          (getConstrainedTypeAtLocation ex_ctx (discriminant (ex_switch 13 [ex_case 2 14]))))
     = [TsType 1, TsType 42]"
    by (simp add: ex_simps)
  have sym: "getSymbolEscapedName ex_ctx
               (getConstrainedTypeAtLocation ex_ctx (discriminant (ex_switch 13 [ex_case 2 14])))
             = None"
    by (simp add: ex_simps)
  have actual: \<open>missingBranchesText ex_ctx [TsType 1, TsType 42] = ''"a" | "z"''\<close>
    by (simp add: missingBranchesText_def missingTypeText_def ex_simps)
  have clauses: \<open>missingCases ex_ctx None [Some (TsType 1), Some (TsType 42)] =
       [''case "a": { throw new Error('Not implemented yet: "a" case') }'',
        ''case "z": { throw new Error('Not implemented yet: "z" case') }'']\<close>
    by (simp add: caseClause_def caseTest_def replaceAll_def singleQuote_def ex_simps)
  have placed: \<open>fixSwitch ex_ctx (ex_switch 13 [ex_case 2 14])
                   [Some (TsType 1), Some (TsType 42)] None =
                 Inr (InsertTextAfter (ex_case 2 14)
                        (newline
                           # ''  case "a": { throw new Error('Not implemented yet: "a" case') }''
                           @ [newline]
                           @ ''  case "z": { throw new Error('Not implemented yet: "z" case') }''))\<close>
    unfolding fixSwitch_def clauses
    by (simp add: repeatSpace_simps ex_switch_def ex_case_def)
  have reported: \<open>checkSwitchExhaustive ex_ctx (ex_switch 13 [ex_case 2 14]) =
       [\<lparr> report_node = Expression 13,
          messageId = SwitchIsNotExhaustive,
          missingBranches = ''"a" | "z"'',
          suggest =
            [\<lparr> suggestion_messageId = AddMissingCases,
               suggestion_fix =
                 Inr (InsertTextAfter (ex_case 2 14)
                        (newline
                           # ''  case "a": { throw new Error('Not implemented yet: "a" case') }''
                           @ [newline]
                           @ ''  case "z": { throw new Error('Not implemented yet: "z" case') }'')) \<rparr>] \<rparr>]\<close>
    using check_union_no_default [OF u n, unfolded Let_def missing sym actual list.map placed]
    by (simp add: ex_switch_def)
  have differs: "checkSwitchExhaustive ex_ctx (ex_switch 13 [ex_case 2 14]) \<noteq>
       [missingVariantsReport ex_ctx (ex_switch 13 [ex_case 2 14])
          (uncovered ex_ctx [ex_case 2 14] (ex_declaredMembers (TsType 40)))]"
    unfolding reported unc claimed by simp
  show ?thesis
    by (rule conjI declared parts unc claimed reported differs)+
qed

text \<open>
  Claim C4. The covered variants are a set of type objects: a variant is missing when
  no test has that very type, whatever the types print as. A further clause whose test
  has the type of the test of a clause already there, wherever it is put and whatever
  expression it tests, leaves the list of missing variants as it was.
\<close>

theorem duplicate_clause_same_missing:
  assumes "isUnion ctx (getConstrainedTypeAtLocation ctx (discriminant node))"
      and "cases node = pre @ post"
      and "cases node' = pre @ extra # post"
      and "discriminant node' = discriminant node"
      and "\<forall>c \<in> set (cases node). test c \<noteq> None"
      and "test extra = Some e"
      and "getConstrainedTypeAtLocation ctx e \<in> coveredVariants ctx (cases node)"
  shows "(let allVariants =
                unionTypeParts ctx (getConstrainedTypeAtLocation ctx (discriminant node));
              missing = filter (\<lambda>v. v \<notin> coveredVariants ctx (cases node)) allVariants;
              missing' = filter (\<lambda>v. v \<notin> coveredVariants ctx (cases node')) allVariants
          in missing' = missing
             \<and> checkSwitchExhaustive ctx node =
                 (if missing = [] then [] else [missingVariantsReport ctx node missing])
             \<and> checkSwitchExhaustive ctx node' =
                 (if missing = [] then [] else [missingVariantsReport ctx node' missing]))"
proof -
  have nodef': "\<forall>c \<in> set (cases node'). test c \<noteq> None"
    using assms(5,6) by (simp add: assms(2,3) ball_Un)
  have union': "isUnion ctx (getConstrainedTypeAtLocation ctx (discriminant node'))"
    using assms(1,4) by simp
  have "coveredVariants ctx (cases node')
        = insert (getConstrainedTypeAtLocation ctx e) (coveredVariants ctx (cases node))"
    by (simp add: assms(2,3) coveredVariants_append coveredVariants_Cons [OF assms(6)])
  with assms(7)
  have cov: "coveredVariants ctx (cases node') = coveredVariants ctx (cases node)"
    by (simp add: insert_absorb)
  show ?thesis
    using check_union_no_default [OF assms(1,5)] check_union_no_default [OF union' nodef']
    by (simp add: Let_def cov assms(4))
qed

theorem duplicate_clause_same_missing_witness:
  "isUnion ex_ctx (getConstrainedTypeAtLocation ex_ctx (Expression 9))
   \<and> test (ex_case 2 11) = Some (Expression 11)
   \<and> Expression 11 \<noteq> Expression 10
   \<and> getConstrainedTypeAtLocation ex_ctx (Expression 11)
       = getConstrainedTypeAtLocation ex_ctx (Expression 10)
   \<and> typeToString ex_ctx (TsType 32) = typeToString ex_ctx (TsType 31)
   \<and> checkSwitchExhaustive ex_ctx (ex_switch 9 [ex_case 2 10])
       = [missingVariantsReport ex_ctx (ex_switch 9 [ex_case 2 10]) [TsType 32]]
   \<and> checkSwitchExhaustive ex_ctx (ex_switch 9 [ex_case 2 10, ex_case 2 11])
       = [missingVariantsReport ex_ctx (ex_switch 9 [ex_case 2 10, ex_case 2 11]) [TsType 32]]"
proof -
  have u: "isUnion ex_ctx (getConstrainedTypeAtLocation ex_ctx (discriminant (ex_switch 9 cs)))"
    for cs by (simp add: ex_simps)
  have c: "cases (ex_switch 9 [ex_case 2 10]) = [ex_case 2 10] @ []"
    by (simp add: ex_simps)
  have c': "cases (ex_switch 9 [ex_case 2 10, ex_case 2 11]) = [ex_case 2 10] @ ex_case 2 11 # []"
    by (simp add: ex_simps)
  have d: "discriminant (ex_switch 9 cs') = discriminant (ex_switch 9 cs)"
    for cs cs' by (simp add: ex_simps)
  have n: "\<forall>c \<in> set (cases (ex_switch 9 [ex_case 2 10])). test c \<noteq> None"
    by (simp add: ex_simps)
  have t: "test (ex_case 2 11) = Some (Expression 11)"
    by (simp add: ex_simps)
  have m: "getConstrainedTypeAtLocation ex_ctx (Expression 11)
           \<in> coveredVariants ex_ctx (cases (ex_switch 9 [ex_case 2 10]))"
    by (simp add: ex_simps)
  have both:
    "checkSwitchExhaustive ex_ctx (ex_switch 9 [ex_case 2 10])
       = [missingVariantsReport ex_ctx (ex_switch 9 [ex_case 2 10]) [TsType 32]]
     \<and> checkSwitchExhaustive ex_ctx (ex_switch 9 [ex_case 2 10, ex_case 2 11])
       = [missingVariantsReport ex_ctx (ex_switch 9 [ex_case 2 10, ex_case 2 11]) [TsType 32]]"
    using duplicate_clause_same_missing [OF u c c' d n t m] by (simp add: Let_def ex_simps)
  have isu: "isUnion ex_ctx (getConstrainedTypeAtLocation ex_ctx (Expression 9))"
    by (simp add: ex_simps)
  have ne: "Expression 11 \<noteq> Expression 10"
    by simp
  have same: "getConstrainedTypeAtLocation ex_ctx (Expression 11)
                = getConstrainedTypeAtLocation ex_ctx (Expression 10)"
    by (simp add: ex_simps)
  have str: "typeToString ex_ctx (TsType 32) = typeToString ex_ctx (TsType 31)"
    by (simp add: ex_simps)
  show ?thesis
    by (rule conjI isu t ne same str conjunct1 [OF both] conjunct2 [OF both])+
qed

subsection \<open>A switch on a type that is not a union\<close>

text \<open>
  Claim C5. On a switch whose discriminant does not have a union type: with the option
  \<^verbatim>\<open>requireDefaultForNonUnion\<close> on, a report is made if and only if no clause is a default
  clause; it lists \<^verbatim>\<open>default\<close> as missing and its fix adds the clause
  \<^verbatim>\<open>default: { throw new Error('default case') }\<close>, after the last clause or, when there
  is no clause, as the body of the switch. With the option off nothing is reported.
\<close>

theorem non_union_requires_default:
  assumes "\<not> isUnion ctx (getConstrainedTypeAtLocation ctx (discriminant node))"
  shows "(requireDefaultForNonUnion ctx \<longrightarrow>
            (checkSwitchExhaustive ctx node \<noteq> [] \<longleftrightarrow> (\<forall>c \<in> set (cases node). test c \<noteq> None))
            \<and> ((\<forall>c \<in> set (cases node). test c \<noteq> None) \<longrightarrow>
                  checkSwitchExhaustive ctx node =
                    [\<lparr> report_node = discriminant node,
                       messageId = SwitchIsNotExhaustive,
                       missingBranches = ''default'',
                       suggest =
                         [\<lparr> suggestion_messageId = AddMissingCases,
                            suggestion_fix = fixSwitch ctx node [None] None \<rparr>] \<rparr>]))
         \<and> (\<not> requireDefaultForNonUnion ctx \<longrightarrow> checkSwitchExhaustive ctx node = [])
         \<and> (cases node \<noteq> [] \<longrightarrow>
               fixSwitch ctx node [None] None =
                 Inr (InsertTextAfter (last (cases node))
                        (newline # repeatSpace (loc_start_column (last (cases node)))
                           @ ''default: { throw new Error('default case') }'')))
         \<and> (\<forall>openingBrace closingBrace.
               cases node = []
               \<and> getOpeningBraceAfter ctx (discriminant node) = Some openingBrace
               \<and> getClosingBraceAfter ctx (discriminant node) = Some closingBrace \<longrightarrow>
               fixSwitch ctx node [None] None =
                 Inr (ReplaceTextRange
                        (fst (token_range openingBrace), snd (token_range closingBrace))
                        (''{'' @ [newline] @ repeatSpace (loc_start_column node)
                           @ ''default: { throw new Error('default case') }'' @ [newline]
                           @ repeatSpace (loc_start_column node) @ ''}'')))"
proof -
  have ex: "list_ex (\<lambda>switchCase. test switchCase = None) (cases node)
            \<longleftrightarrow> \<not> (\<forall>c \<in> set (cases node). test c \<noteq> None)"
    by (simp add: list_ex_iff)
  have on: "requireDefaultForNonUnion ctx \<Longrightarrow>
            checkSwitchExhaustive ctx node =
              (if \<forall>c \<in> set (cases node). test c \<noteq> None
               then [\<lparr> report_node = discriminant node,
                       messageId = SwitchIsNotExhaustive,
                       missingBranches = ''default'',
                       suggest =
                         [\<lparr> suggestion_messageId = AddMissingCases,
                            suggestion_fix = fixSwitch ctx node [None] None \<rparr>] \<rparr>]
               else [])"
    using assms by (simp add: checkSwitchExhaustive_def Let_def ex)
  have off: "\<not> requireDefaultForNonUnion ctx \<Longrightarrow> checkSwitchExhaustive ctx node = []"
    using assms by (simp add: checkSwitchExhaustive_def Let_def)
  have after: "cases node \<noteq> [] \<Longrightarrow>
               fixSwitch ctx node [None] None =
                 Inr (InsertTextAfter (last (cases node))
                        (newline # repeatSpace (loc_start_column (last (cases node)))
                           @ ''default: { throw new Error('default case') }''))"
    by (simp add: fixSwitch_def Let_def last_conv_nth)
  have body: "cases node = [] \<Longrightarrow>
              getOpeningBraceAfter ctx (discriminant node) = Some openingBrace \<Longrightarrow>
              getClosingBraceAfter ctx (discriminant node) = Some closingBrace \<Longrightarrow>
              fixSwitch ctx node [None] None =
                 Inr (ReplaceTextRange
                        (fst (token_range openingBrace), snd (token_range closingBrace))
                        (''{'' @ [newline] @ repeatSpace (loc_start_column node)
                           @ ''default: { throw new Error('default case') }'' @ [newline]
                           @ repeatSpace (loc_start_column node) @ ''}''))"
    for openingBrace closingBrace
    by (simp add: fixSwitch_def Let_def)
  from on have c1: "requireDefaultForNonUnion ctx \<longrightarrow>
            (checkSwitchExhaustive ctx node \<noteq> [] \<longleftrightarrow> (\<forall>c \<in> set (cases node). test c \<noteq> None))
            \<and> ((\<forall>c \<in> set (cases node). test c \<noteq> None) \<longrightarrow>
                  checkSwitchExhaustive ctx node =
                    [\<lparr> report_node = discriminant node,
                       messageId = SwitchIsNotExhaustive,
                       missingBranches = ''default'',
                       suggest =
                         [\<lparr> suggestion_messageId = AddMissingCases,
                            suggestion_fix = fixSwitch ctx node [None] None \<rparr>] \<rparr>])"
    by (simp split: if_splits)
  show ?thesis
    using c1 off after body by blast
qed

theorem non_union_requires_default_witness:
  "\<not> isUnion ex_ctx (getConstrainedTypeAtLocation ex_ctx (Expression 5))
   \<and> requireDefaultForNonUnion ex_ctx
   \<and> checkSwitchExhaustive ex_ctx (ex_switch 5 [ex_case 2 2]) =
       [\<lparr> report_node = Expression 5,
          messageId = SwitchIsNotExhaustive,
          missingBranches = ''default'',
          suggest =
            [\<lparr> suggestion_messageId = AddMissingCases,
               suggestion_fix =
                 Inr (InsertTextAfter (ex_case 2 2)
                        (newline # ''  default: { throw new Error('default case') }'')) \<rparr>] \<rparr>]
   \<and> checkSwitchExhaustive ex_ctx (ex_switch 5 [ex_case 2 2, ex_default 2]) = []
   \<and> checkSwitchExhaustive (ex_ctx \<lparr> requireDefaultForNonUnion := False \<rparr>)
        (ex_switch 5 [ex_case 2 2]) = []
   \<and> fixSwitch ex_ctx (ex_switch 5 []) [None] None =
       Inr (ReplaceTextRange (11, 14)
              (''{'' @ [newline] @ ''default: { throw new Error('default case') }''
                 @ [newline] @ ''}''))"
proof -
  have nu: "\<not> isUnion ex_ctx (getConstrainedTypeAtLocation ex_ctx (discriminant (ex_switch 5 cs)))"
    for cs by (simp add: ex_simps)
  have nu': "\<not> isUnion (ex_ctx \<lparr> requireDefaultForNonUnion := False \<rparr>)
                 (getConstrainedTypeAtLocation (ex_ctx \<lparr> requireDefaultForNonUnion := False \<rparr>)
                    (discriminant (ex_switch 5 cs)))"
    for cs by (simp add: ex_simps)
  have isnu: "\<not> isUnion ex_ctx (getConstrainedTypeAtLocation ex_ctx (Expression 5))"
    by (simp add: ex_simps)
  have opt: "requireDefaultForNonUnion ex_ctx"
    by (simp add: ex_simps)
  have reported: "checkSwitchExhaustive ex_ctx (ex_switch 5 [ex_case 2 2]) =
       [\<lparr> report_node = Expression 5,
          messageId = SwitchIsNotExhaustive,
          missingBranches = ''default'',
          suggest =
            [\<lparr> suggestion_messageId = AddMissingCases,
               suggestion_fix =
                 Inr (InsertTextAfter (ex_case 2 2)
                        (newline # ''  default: { throw new Error('default case') }'')) \<rparr>] \<rparr>]"
    using non_union_requires_default [OF nu, of "[ex_case 2 2]"]
    by (simp add: ex_simps repeatSpace_simps)
  have silent: "checkSwitchExhaustive ex_ctx (ex_switch 5 [ex_case 2 2, ex_default 2]) = []"
    using non_union_requires_default [OF nu, of "[ex_case 2 2, ex_default 2]"]
    by (simp add: ex_simps)
  have off: "checkSwitchExhaustive (ex_ctx \<lparr> requireDefaultForNonUnion := False \<rparr>)
        (ex_switch 5 [ex_case 2 2]) = []"
    using non_union_requires_default [OF nu', of "[ex_case 2 2]"]
    by (simp add: ex_simps)
  have body: "fixSwitch ex_ctx (ex_switch 5 []) [None] None =
       Inr (ReplaceTextRange (11, 14)
              (''{'' @ [newline] @ ''default: { throw new Error('default case') }''
                 @ [newline] @ ''}''))"
    using non_union_requires_default [OF nu, of "[]"]
    by (simp add: ex_simps repeatSpace_simps)
  show ?thesis
    by (rule conjI isnu opt reported silent off body)+
qed

subsection \<open>The message and the generated clauses\<close>

lemma sublist_join:
  "x \<in> set xs \<Longrightarrow> sublist x (join sep xs)"
proof (induction sep xs rule: join.induct)
  case (1 sep)
  then show ?case by simp
next
  case (2 sep y)
  then show ?case by simp
next
  case (3 sep y z zs)
  show ?case
  proof (cases "x = y")
    case True
    then show ?thesis by simp
  next
    case False
    with 3 have "sublist x (join sep (z # zs))" by simp
    then obtain ps ss where "join sep (z # zs) = ps @ x @ ss"
      by (auto simp add: sublist_def)
    then have "join sep (y # z # zs) = (y @ sep @ ps) @ x @ ss"
      by simp
    then show ?thesis
      unfolding sublist_def by blast
  qed
qed

lemma fixSwitch_cong:
  "missingCases ctx symbolName ts = missingCases ctx symbolName ts' \<Longrightarrow>
   fixSwitch ctx node ts symbolName = fixSwitch ctx node ts' symbolName"
  by (simp add: fixSwitch_def)

text \<open>
  Claim C6. A missing variant that is an intersection type is listed in the message like
  every other missing variant, and no clause is generated for it: the generated clauses
  are those of the missing variants that are not intersection types, and the fix is the
  one that would be made if the intersection types were not missing.
\<close>

theorem intersection_listed_not_fixed:
  assumes "isUnion ctx (getConstrainedTypeAtLocation ctx (discriminant node))"
      and "\<forall>c \<in> set (cases node). test c \<noteq> None"
  shows "(let missing =
                filter (\<lambda>v. v \<notin> coveredVariants ctx (cases node))
                  (unionTypeParts ctx (getConstrainedTypeAtLocation ctx (discriminant node)));
              symbolName =
                getSymbolEscapedName ctx (getConstrainedTypeAtLocation ctx (discriminant node));
              fixed = filter (\<lambda>t. \<not> isIntersection ctx t) missing
          in checkSwitchExhaustive ctx node =
               (if missing = [] then [] else [missingVariantsReport ctx node missing])
             \<and> (\<forall>t \<in> set missing.
                   sublist (missingTypeText ctx t) (missingBranchesText ctx missing))
             \<and> missingCases ctx symbolName (map Some missing)
                 = map (caseClause ctx symbolName) fixed
             \<and> fixSwitch ctx node (map Some missing) symbolName
                 = fixSwitch ctx node (map Some fixed) symbolName)"
proof -
  let ?missing = "filter (\<lambda>v. v \<notin> coveredVariants ctx (cases node))
                  (unionTypeParts ctx (getConstrainedTypeAtLocation ctx (discriminant node)))"
  let ?sym = "getSymbolEscapedName ctx (getConstrainedTypeAtLocation ctx (discriminant node))"
  let ?fixed = "filter (\<lambda>t. \<not> isIntersection ctx t) ?missing"
  have rep: "checkSwitchExhaustive ctx node =
               (if ?missing = [] then [] else [missingVariantsReport ctx node ?missing])"
    using check_union_no_default [OF assms] by (simp add: Let_def)
  have listed: "\<forall>t \<in> set ?missing.
                  sublist (missingTypeText ctx t) (missingBranchesText ctx ?missing)"
    unfolding missingBranchesText_def by (intro ballI sublist_join) simp
  have gen: "missingCases ctx ?sym (map Some ?missing) = map (caseClause ctx ?sym) ?fixed"
    by (rule missingCases_types)
  have "missingCases ctx ?sym (map Some ?fixed) = map (caseClause ctx ?sym) ?fixed"
    by (simp add: missingCases_types)
  with gen have "missingCases ctx ?sym (map Some ?missing) = missingCases ctx ?sym (map Some ?fixed)"
    by simp
  then have same: "fixSwitch ctx node (map Some ?missing) ?sym
                   = fixSwitch ctx node (map Some ?fixed) ?sym"
    by (rule fixSwitch_cong)
  show ?thesis
    unfolding Let_def using rep listed gen same by blast
qed

theorem intersection_listed_not_fixed_witness:
  "isIntersection ex_ctx (TsType 21)
   \<and> checkSwitchExhaustive ex_ctx (ex_switch 8 [ex_case 2 2])
       = [missingVariantsReport ex_ctx (ex_switch 8 [ex_case 2 2]) [TsType 21, TsType 22]]
   \<and> missingBranchesText ex_ctx [TsType 21, TsType 22]
       = ''string & { __brand: void; } | typeof sym''
   \<and> sublist (missingTypeText ex_ctx (TsType 21))
         (missingBranchesText ex_ctx [TsType 21, TsType 22])
   \<and> missingCases ex_ctx None [Some (TsType 21), Some (TsType 22)]
       = [''case unique symbol: { throw new Error('Not implemented yet: unique symbol case') }'']
   \<and> fixSwitch ex_ctx (ex_switch 8 [ex_case 2 2]) [Some (TsType 21), Some (TsType 22)] None
       = fixSwitch ex_ctx (ex_switch 8 [ex_case 2 2]) [Some (TsType 22)] None"
proof -
  have u: "isUnion ex_ctx (getConstrainedTypeAtLocation ex_ctx (discriminant (ex_switch 8 cs)))"
    for cs by (simp add: ex_simps)
  have n: "\<forall>c \<in> set (cases (ex_switch 8 [ex_case 2 2])). test c \<noteq> None"
    by (simp add: ex_simps)
  have missing:
    "filter (\<lambda>v. v \<notin> coveredVariants ex_ctx (cases (ex_switch 8 [ex_case 2 2])))
       (unionTypeParts ex_ctx
          (getConstrainedTypeAtLocation ex_ctx (discriminant (ex_switch 8 [ex_case 2 2]))))
     = [TsType 21, TsType 22]"
    by (simp add: ex_simps)
  have sym: "getSymbolEscapedName ex_ctx
               (getConstrainedTypeAtLocation ex_ctx (discriminant (ex_switch 8 [ex_case 2 2])))
             = None"
    by (simp add: ex_simps)
  have fixed: "filter (\<lambda>t. \<not> isIntersection ex_ctx t) [TsType 21, TsType 22] = [TsType 22]"
    by (simp add: ex_simps)
  note inst = intersection_listed_not_fixed [OF u n, unfolded Let_def missing sym fixed]
  have inter: "isIntersection ex_ctx (TsType 21)"
    by (simp add: ex_simps)
  have reported: "checkSwitchExhaustive ex_ctx (ex_switch 8 [ex_case 2 2])
       = [missingVariantsReport ex_ctx (ex_switch 8 [ex_case 2 2]) [TsType 21, TsType 22]]"
    using conjunct1 [OF inst] by (simp add: sym)
  have msg: "missingBranchesText ex_ctx [TsType 21, TsType 22]
       = ''string & { __brand: void; } | typeof sym''"
    by (simp add: missingBranchesText_def missingTypeText_def ex_simps)
  have listed: "sublist (missingTypeText ex_ctx (TsType 21))
         (missingBranchesText ex_ctx [TsType 21, TsType 22])"
    using inst by simp
  have clause: "caseClause ex_ctx None (TsType 22)
       = ''case unique symbol: { throw new Error('Not implemented yet: unique symbol case') }''"
    by (simp add: caseClause_def caseTest_def replaceAll_def singleQuote_def ex_simps)
  have generated: "missingCases ex_ctx None [Some (TsType 21), Some (TsType 22)]
       = [''case unique symbol: { throw new Error('Not implemented yet: unique symbol case') }'']"
    using inst clause by simp
  have same: "fixSwitch ex_ctx (ex_switch 8 [ex_case 2 2]) [Some (TsType 21), Some (TsType 22)] None
       = fixSwitch ex_ctx (ex_switch 8 [ex_case 2 2]) [Some (TsType 22)] None"
    using inst by simp
  show ?thesis
    by (rule conjI inter reported msg listed generated same)+
qed

text \<open>
  Claim C7. The report on a union is anchored at the discriminant, and its text is the
  texts of the missing variants joined with \<^verbatim>\<open> | \<close>. The text of a variant without
  the symbol-like flag is what the type checker prints for it. The text of a variant
  with the symbol-like flag is \<^verbatim>\<open>typeof\<close> and the name of its symbol when it has a
  symbol; when it has none, as the primitive type \<^verbatim>\<open>symbol\<close>, there is no declared name
  to print and line 180, whose \<^verbatim>\<open>as string\<close> takes the name for a string, prints
  \<^verbatim>\<open>typeof undefined\<close>.
\<close>

theorem missing_variants_message:
  assumes "isUnion ctx (getConstrainedTypeAtLocation ctx (discriminant node))"
      and "\<forall>c \<in> set (cases node). test c \<noteq> None"
  shows "(let missing =
                filter (\<lambda>v. v \<notin> coveredVariants ctx (cases node))
                  (unionTypeParts ctx (getConstrainedTypeAtLocation ctx (discriminant node)))
          in (\<forall>r \<in> set (checkSwitchExhaustive ctx node).
                report_node r = discriminant node
                \<and> missingBranches r = join '' | '' (map (missingTypeText ctx) missing))
             \<and> (missing \<noteq> [] \<longrightarrow> checkSwitchExhaustive ctx node \<noteq> []))
         \<and> (\<forall>t name. isESSymbolLike ctx t \<and> getSymbolEscapedName ctx t = Some name \<longrightarrow>
               missingTypeText ctx t = ''typeof '' @ name)
         \<and> (\<forall>t. isESSymbolLike ctx t \<and> getSymbolEscapedName ctx t = None \<longrightarrow>
               missingTypeText ctx t = ''typeof undefined'')
         \<and> (\<forall>t. \<not> isESSymbolLike ctx t \<longrightarrow> missingTypeText ctx t = typeToString ctx t)"
proof -
  let ?missing = "filter (\<lambda>v. v \<notin> coveredVariants ctx (cases node))
                  (unionTypeParts ctx (getConstrainedTypeAtLocation ctx (discriminant node)))"
  have rep: "checkSwitchExhaustive ctx node =
               (if ?missing = [] then [] else [missingVariantsReport ctx node ?missing])"
    using check_union_no_default [OF assms] by (simp add: Let_def)
  have anchored: "\<forall>r \<in> set (checkSwitchExhaustive ctx node).
                report_node r = discriminant node
                \<and> missingBranches r = join '' | '' (map (missingTypeText ctx) ?missing)"
    by (simp add: rep missingBranchesText_def)
  have made: "?missing \<noteq> [] \<longrightarrow> checkSwitchExhaustive ctx node \<noteq> []"
    by (simp add: rep)
  have sym: "\<forall>t name. isESSymbolLike ctx t \<and> getSymbolEscapedName ctx t = Some name \<longrightarrow>
               missingTypeText ctx t = ''typeof '' @ name"
    by (simp add: missingTypeText_def)
  have nameless: "\<forall>t. isESSymbolLike ctx t \<and> getSymbolEscapedName ctx t = None \<longrightarrow>
               missingTypeText ctx t = ''typeof undefined''"
    by (simp add: missingTypeText_def)
  have other: "\<forall>t. \<not> isESSymbolLike ctx t \<longrightarrow> missingTypeText ctx t = typeToString ctx t"
    by (simp add: missingTypeText_def)
  show ?thesis
    unfolding Let_def using anchored made sym nameless other by blast
qed

theorem missing_variants_message_witness:
  "isESSymbolLike ex_ctx (TsType 22)
   \<and> getSymbolEscapedName ex_ctx (TsType 22) = Some ''sym''
   \<and> typeToString ex_ctx (TsType 22) = ''unique symbol''
   \<and> checkSwitchExhaustive ex_ctx (ex_switch 8 [ex_case 2 2]) \<noteq> []
   \<and> list_all (\<lambda>r. report_node r = Expression 8
                    \<and> missingBranches r = ''string & { __brand: void; } | typeof sym'')
        (checkSwitchExhaustive ex_ctx (ex_switch 8 [ex_case 2 2]))
   \<and> isESSymbolLike ex_ctx (TsType 61)
   \<and> getSymbolEscapedName ex_ctx (TsType 61) = None
   \<and> typeToString ex_ctx (TsType 61) = ''symbol''
   \<and> checkSwitchExhaustive ex_ctx (ex_switch 18 [ex_case 2 4]) \<noteq> []
   \<and> list_all (\<lambda>r. report_node r = Expression 18
                    \<and> missingBranches r = ''typeof undefined'')
        (checkSwitchExhaustive ex_ctx (ex_switch 18 [ex_case 2 4]))"
proof -
  have u: "isUnion ex_ctx (getConstrainedTypeAtLocation ex_ctx (discriminant (ex_switch 8 cs)))"
    for cs by (simp add: ex_simps)
  have n: "\<forall>c \<in> set (cases (ex_switch 8 [ex_case 2 2])). test c \<noteq> None"
    by (simp add: ex_simps)
  have missing:
    "filter (\<lambda>v. v \<notin> coveredVariants ex_ctx (cases (ex_switch 8 [ex_case 2 2])))
       (unionTypeParts ex_ctx
          (getConstrainedTypeAtLocation ex_ctx (discriminant (ex_switch 8 [ex_case 2 2]))))
     = [TsType 21, TsType 22]"
    by (simp add: ex_simps)
  note inst = missing_variants_message [OF u n, unfolded Let_def missing]
  have flag: "isESSymbolLike ex_ctx (TsType 22)"
    by (simp add: ex_simps)
  have name: "getSymbolEscapedName ex_ctx (TsType 22) = Some ''sym''"
    by (simp add: ex_simps)
  have printed: "typeToString ex_ctx (TsType 22) = ''unique symbol''"
    by (simp add: ex_simps)
  have t22: "missingTypeText ex_ctx (TsType 22) = ''typeof sym''"
    using inst flag name by simp
  have noflag: "\<not> isESSymbolLike ex_ctx (TsType 21)"
    by (simp add: ex_simps)
  have t21: "missingTypeText ex_ctx (TsType 21) = ''string & { __brand: void; }''"
    using inst noflag by (simp add: ex_simps)
  have made: "checkSwitchExhaustive ex_ctx (ex_switch 8 [ex_case 2 2]) \<noteq> []"
    using inst by simp
  have d: "discriminant (ex_switch 8 [ex_case 2 2]) = Expression 8"
    by (simp add: ex_simps)
  have "\<forall>r \<in> set (checkSwitchExhaustive ex_ctx (ex_switch 8 [ex_case 2 2])).
          report_node r = Expression 8
          \<and> missingBranches r = ''string & { __brand: void; } | typeof sym''"
    using inst by (simp add: t21 t22 d)
  then have every: "list_all (\<lambda>r. report_node r = Expression 8
                    \<and> missingBranches r = ''string & { __brand: void; } | typeof sym'')
        (checkSwitchExhaustive ex_ctx (ex_switch 8 [ex_case 2 2]))"
    by (simp add: list_all_iff)
  have u': "isUnion ex_ctx (getConstrainedTypeAtLocation ex_ctx
              (discriminant (ex_switch 18 [ex_case 2 4])))"
    by (simp add: ex_simps)
  have n': "\<forall>c \<in> set (cases (ex_switch 18 [ex_case 2 4])). test c \<noteq> None"
    by (simp add: ex_simps)
  have missing':
    "filter (\<lambda>v. v \<notin> coveredVariants ex_ctx (cases (ex_switch 18 [ex_case 2 4])))
       (unionTypeParts ex_ctx
          (getConstrainedTypeAtLocation ex_ctx (discriminant (ex_switch 18 [ex_case 2 4]))))
     = [TsType 61]"
    by (simp add: ex_simps)
  note inst' = missing_variants_message [OF u' n', unfolded Let_def missing']
  have flag': "isESSymbolLike ex_ctx (TsType 61)"
    by (simp add: ex_simps)
  have name': "getSymbolEscapedName ex_ctx (TsType 61) = None"
    by (simp add: ex_simps)
  have printed': "typeToString ex_ctx (TsType 61) = ''symbol''"
    by (simp add: ex_simps)
  have t61: "missingTypeText ex_ctx (TsType 61) = ''typeof undefined''"
    using inst' flag' name' by simp
  have made': "checkSwitchExhaustive ex_ctx (ex_switch 18 [ex_case 2 4]) \<noteq> []"
    using inst' by simp
  have d': "discriminant (ex_switch 18 [ex_case 2 4]) = Expression 18"
    by (simp add: ex_simps)
  have "\<forall>r \<in> set (checkSwitchExhaustive ex_ctx (ex_switch 18 [ex_case 2 4])).
          report_node r = Expression 18 \<and> missingBranches r = ''typeof undefined''"
    using inst' by (simp add: t61 d')
  then have every': "list_all (\<lambda>r. report_node r = Expression 18
                    \<and> missingBranches r = ''typeof undefined'')
        (checkSwitchExhaustive ex_ctx (ex_switch 18 [ex_case 2 4]))"
    by (simp add: list_all_iff)
  show ?thesis
    by (rule conjI flag name printed made every flag' name' printed' made' every')+
qed

subsection \<open>Where the fix is put\<close>

text \<open>
  Claim C8. When the switch has a clause, the fix inserts after its last clause a
  newline and the generated clauses, joined with newlines and each indented to the column
  of that last clause. When the switch has no clause, the fix replaces the text from
  the start of the opening brace to the end of the closing brace with an opening brace,
  the generated clauses, and a closing brace indented to the column of the switch.
\<close>

theorem fix_placement:
  "(cases node \<noteq> [] \<longrightarrow>
      fixSwitch ctx node missingBranchTypes symbolName =
        Inr (InsertTextAfter (last (cases node))
               (newline #
                  join [newline]
                    (map (\<lambda>code. repeatSpace (loc_start_column (last (cases node))) @ code)
                       (missingCases ctx symbolName missingBranchTypes)))))
   \<and> (\<forall>openingBrace closingBrace.
         cases node = []
         \<and> getOpeningBraceAfter ctx (discriminant node) = Some openingBrace
         \<and> getClosingBraceAfter ctx (discriminant node) = Some closingBrace \<longrightarrow>
         fixSwitch ctx node missingBranchTypes symbolName =
           Inr (ReplaceTextRange
                  (fst (token_range openingBrace), snd (token_range closingBrace))
                  (''{'' @ [newline]
                     @ join [newline]
                         (map (\<lambda>code. repeatSpace (loc_start_column node) @ code)
                            (missingCases ctx symbolName missingBranchTypes))
                     @ [newline] @ repeatSpace (loc_start_column node) @ ''}'')))"
proof (intro conjI impI allI)
  assume "cases node \<noteq> []"
  then show "fixSwitch ctx node missingBranchTypes symbolName =
        Inr (InsertTextAfter (last (cases node))
               (newline #
                  join [newline]
                    (map (\<lambda>code. repeatSpace (loc_start_column (last (cases node))) @ code)
                       (missingCases ctx symbolName missingBranchTypes))))"
    by (simp add: fixSwitch_def Let_def last_conv_nth)
next
  fix openingBrace closingBrace
  assume "cases node = []
         \<and> getOpeningBraceAfter ctx (discriminant node) = Some openingBrace
         \<and> getClosingBraceAfter ctx (discriminant node) = Some closingBrace"
  then show "fixSwitch ctx node missingBranchTypes symbolName =
           Inr (ReplaceTextRange
                  (fst (token_range openingBrace), snd (token_range closingBrace))
                  (''{'' @ [newline]
                     @ join [newline]
                         (map (\<lambda>code. repeatSpace (loc_start_column node) @ code)
                            (missingCases ctx symbolName missingBranchTypes))
                     @ [newline] @ repeatSpace (loc_start_column node) @ ''}''))"
    by (simp add: fixSwitch_def Let_def)
qed

theorem fix_placement_witness:
  \<open>fixSwitch ex_ctx (ex_switch 0 [ex_case 4 3]) [Some (TsType 1), Some (TsType 2)] None =
     Inr (InsertTextAfter (ex_case 4 3)
            (newline # ''    case "a": { throw new Error('Not implemented yet: "a" case') }''
               @ [newline] @ ''    case "b": { throw new Error('Not implemented yet: "b" case') }''))
   \<and> fixSwitch ex_ctx ((ex_switch 9 []) \<lparr> loc_start_column := 2 \<rparr>)
       [Some (TsType 31), Some (TsType 32)] None =
     Inr (ReplaceTextRange (11, 14)
            (''{'' @ [newline]
               @ ''  case Shape: { throw new Error('Not implemented yet: Shape case') }''
               @ [newline]
               @ ''  case Shape: { throw new Error('Not implemented yet: Shape case') }''
               @ [newline] @ ''  }''))\<close>
proof -
  have clauses: \<open>missingCases ex_ctx None [Some (TsType 1), Some (TsType 2)] =
      [''case "a": { throw new Error('Not implemented yet: "a" case') }'',
       ''case "b": { throw new Error('Not implemented yet: "b" case') }'']\<close>
    by (simp add: caseClause_def caseTest_def replaceAll_def singleQuote_def ex_simps)
  have clauses': "missingCases ex_ctx None [Some (TsType 31), Some (TsType 32)] =
      [''case Shape: { throw new Error('Not implemented yet: Shape case') }'',
       ''case Shape: { throw new Error('Not implemented yet: Shape case') }'']"
    by (simp add: caseClause_def caseTest_def replaceAll_def singleQuote_def ex_simps)
  have after: \<open>fixSwitch ex_ctx (ex_switch 0 [ex_case 4 3]) [Some (TsType 1), Some (TsType 2)] None =
     Inr (InsertTextAfter (ex_case 4 3)
            (newline # ''    case "a": { throw new Error('Not implemented yet: "a" case') }''
               @ [newline] @ ''    case "b": { throw new Error('Not implemented yet: "b" case') }''))\<close>
    using fix_placement [of "ex_switch 0 [ex_case 4 3]" ex_ctx
        "[Some (TsType 1), Some (TsType 2)]" None, unfolded clauses]
    by (simp add: clauses repeatSpace_simps ex_switch_def ex_case_def)
  have body: "fixSwitch ex_ctx ((ex_switch 9 []) \<lparr> loc_start_column := 2 \<rparr>)
       [Some (TsType 31), Some (TsType 32)] None =
     Inr (ReplaceTextRange (11, 14)
            (''{'' @ [newline]
               @ ''  case Shape: { throw new Error('Not implemented yet: Shape case') }''
               @ [newline]
               @ ''  case Shape: { throw new Error('Not implemented yet: Shape case') }''
               @ [newline] @ ''  }''))"
    using fix_placement [of "(ex_switch 9 []) \<lparr> loc_start_column := 2 \<rparr>" ex_ctx
        "[Some (TsType 31), Some (TsType 32)]" None, unfolded clauses']
    by (simp add: clauses' repeatSpace_simps ex_switch_def ex_ctx_def)
  show ?thesis
    by (rule conjI after body)+
qed

subsection \<open>The generated clause\<close>

lemma replaceAll_absent:
  "c \<notin> set s \<Longrightarrow> replaceAll c r s = s"
  by (induction s) (auto simp add: replaceAll_def)

lemma singleQuote_not_in_message:
  "singleQuote \<notin> set ct \<Longrightarrow> singleQuote \<notin> set (''Not implemented yet: '' @ ct @ '' case'')"
  by (simp add: singleQuote_def)

text \<open>
  Claim C9, as the code has it. For a missing variant that is not an intersection type
  one clause is generated. Its test is what the type checker prints for the variant,
  unless the discriminant's type has a symbol with a non-empty name, the variant has a
  symbol (whose name may be empty) and that name requires quoting: then the test is the
  discriminant's symbol name followed by the variant's name in brackets and single
  quotes, with the single quotes, then the newlines, then the carriage returns of the
  name escaped. The clause is \<^verbatim>\<open>case\<close>, the test, and a block that throws an error
  whose string literal holds \<^verbatim>\<open>Not implemented yet: \<close>, the test and \<^verbatim>\<open> case\<close>, with
  every single quote of that message preceded by a backslash; when the test has no single
  quote the literal holds the message as it is.
\<close>

theorem case_clause_generated:
  assumes "\<not> isIntersection ctx t"
  shows "missingCases ctx symbolName [Some t] =
           [''case '' @ caseTest ctx symbolName t @ '': { throw new Error('' @ [singleQuote]
              @ replaceAll singleQuote [backslash, singleQuote]
                  (''Not implemented yet: '' @ caseTest ctx symbolName t @ '' case'')
              @ [singleQuote] @ '') }'']
         \<and> (singleQuote \<notin> set (caseTest ctx symbolName t) \<longrightarrow>
               missingCases ctx symbolName [Some t] =
                 [''case '' @ caseTest ctx symbolName t
                    @ '': { throw new Error('Not implemented yet: ''
                    @ caseTest ctx symbolName t @ '' case') }''])
         \<and> (\<forall>discriminantName name.
               symbolName = Some discriminantName \<and> discriminantName \<noteq> []
               \<and> getSymbolEscapedName ctx t = Some name \<and> requiresQuoting ctx name \<longrightarrow>
               caseTest ctx symbolName t =
                 discriminantName @ ''['' @ [singleQuote]
                   @ replaceAll carriageReturn [backslash, CHR ''r'']
                       (replaceAll newline [backslash, CHR ''n'']
                          (replaceAll singleQuote [backslash, singleQuote] name))
                   @ [singleQuote] @ '']'')
         \<and> (\<not> (\<exists>discriminantName name.
                  symbolName = Some discriminantName \<and> discriminantName \<noteq> []
                  \<and> getSymbolEscapedName ctx t = Some name \<and> requiresQuoting ctx name) \<longrightarrow>
               caseTest ctx symbolName t = typeToString ctx t)"
proof -
  let ?ct = "caseTest ctx symbolName t"
  have clause: "missingCases ctx symbolName [Some t] =
           [''case '' @ ?ct @ '': { throw new Error('' @ [singleQuote]
              @ replaceAll singleQuote [backslash, singleQuote]
                  (''Not implemented yet: '' @ ?ct @ '' case'')
              @ [singleQuote] @ '') }'']"
    using assms by (simp add: caseClause_def Let_def)
  have plain: "singleQuote \<notin> set ?ct \<longrightarrow>
               missingCases ctx symbolName [Some t] =
                 [''case '' @ ?ct @ '': { throw new Error('Not implemented yet: ''
                    @ ?ct @ '' case') }'']"
  proof
    assume "singleQuote \<notin> set ?ct"
    then have "replaceAll singleQuote [backslash, singleQuote]
                 (''Not implemented yet: '' @ ?ct @ '' case'')
               = ''Not implemented yet: '' @ ?ct @ '' case''"
      by (intro replaceAll_absent singleQuote_not_in_message)
    then show "missingCases ctx symbolName [Some t] =
                 [''case '' @ ?ct @ '': { throw new Error('Not implemented yet: ''
                    @ ?ct @ '' case') }'']"
      unfolding clause by (simp add: singleQuote_def)
  qed
  have quoted: "\<forall>discriminantName name.
               symbolName = Some discriminantName \<and> discriminantName \<noteq> []
               \<and> getSymbolEscapedName ctx t = Some name \<and> requiresQuoting ctx name \<longrightarrow>
               ?ct =
                 discriminantName @ ''['' @ [singleQuote]
                   @ replaceAll carriageReturn [backslash, CHR ''r'']
                       (replaceAll newline [backslash, CHR ''n'']
                          (replaceAll singleQuote [backslash, singleQuote] name))
                   @ [singleQuote] @ '']''"
    by (simp add: caseTest_def Let_def)
  have printed: "\<not> (\<exists>discriminantName name.
                  symbolName = Some discriminantName \<and> discriminantName \<noteq> []
                  \<and> getSymbolEscapedName ctx t = Some name \<and> requiresQuoting ctx name) \<longrightarrow>
               ?ct = typeToString ctx t"
    by (simp add: caseTest_def Let_def split: option.splits)
  show ?thesis
    using clause plain quoted printed by blast
qed

theorem case_clause_generated_witness:
  \<open>\<not> isIntersection ex_ctx (TsType 11)
   \<and> caseTest ex_ctx (Some ''E'') (TsType 11) = ''E['a-b']''
   \<and> missingCases ex_ctx (Some ''E'') [Some (TsType 11)] =
       [''case E['a-b']: { throw new Error('Not implemented yet: E['' @ [backslash, singleQuote]
          @ ''a-b'' @ [backslash, singleQuote] @ ''] case') }'']
   \<and> \<not> isIntersection ex_ctx (TsType 3)
   \<and> missingCases ex_ctx None [Some (TsType 3)] =
       [''case "c": { throw new Error('Not implemented yet: "c" case') }'']\<close>
proof -
  have n11: "\<not> isIntersection ex_ctx (TsType 11)"
    by (simp add: ex_simps)
  have n3: "\<not> isIntersection ex_ctx (TsType 3)"
    by (simp add: ex_simps)
  have name: "getSymbolEscapedName ex_ctx (TsType 11) = Some ''a-b''"
    by (simp add: ex_simps)
  have quoting: "requiresQuoting ex_ctx ''a-b''"
    by (simp add: ex_simps)
  have escaped: "replaceAll carriageReturn [backslash, CHR ''r'']
                   (replaceAll newline [backslash, CHR ''n'']
                      (replaceAll singleQuote [backslash, singleQuote] ''a-b'')) = ''a-b''"
    by (simp add: replaceAll_def singleQuote_def newline_def carriageReturn_def)
  have "caseTest ex_ctx (Some ''E'') (TsType 11) =
          ''E'' @ ''['' @ [singleQuote]
            @ replaceAll carriageReturn [backslash, CHR ''r'']
                (replaceAll newline [backslash, CHR ''n'']
                   (replaceAll singleQuote [backslash, singleQuote] ''a-b''))
            @ [singleQuote] @ '']''"
    by (rule case_clause_generated
          [OF n11, THEN conjunct2, THEN conjunct2, THEN conjunct1, rule_format])
       (simp add: name quoting)
  then have ct11: "caseTest ex_ctx (Some ''E'') (TsType 11) = ''E['a-b']''"
    unfolding escaped by (simp add: singleQuote_def)
  have c11: "missingCases ex_ctx (Some ''E'') [Some (TsType 11)] =
       [''case E['a-b']: { throw new Error('Not implemented yet: E['' @ [backslash, singleQuote]
          @ ''a-b'' @ [backslash, singleQuote] @ ''] case') }'']"
    using conjunct1 [OF case_clause_generated [OF n11, of "Some ''E''"], unfolded ct11]
    by (simp add: replaceAll_def singleQuote_def del: missingCases.simps)
  have ct3: \<open>caseTest ex_ctx None (TsType 3) = ''"c"''\<close>
    using case_clause_generated [OF n3, of None] by (simp add: ex_simps)
  have c3: \<open>missingCases ex_ctx None [Some (TsType 3)] =
       [''case "c": { throw new Error('Not implemented yet: "c" case') }'']\<close>
    using conjunct1 [OF case_clause_generated [OF n3, of None], unfolded ct3]
    by (simp add: replaceAll_def singleQuote_def del: missingCases.simps)
  show ?thesis
    by (rule conjI n11 ct11 c11 n3 c3)+
qed

text \<open>
  The claim's form of the clause, with the message put between the single quotes as it
  is, is not what is generated for the member \<^verbatim>\<open>'a-b'\<close> of the enum \<^verbatim>\<open>E\<close>: the test
  has single quotes, and they are escaped in the message.
\<close>

theorem case_clause_form_counterexample:
  "\<not> isIntersection ex_ctx (TsType 11)
   \<and> caseTest ex_ctx (Some ''E'') (TsType 11) = ''E['a-b']''
   \<and> missingCases ex_ctx (Some ''E'') [Some (TsType 11)] \<noteq>
       [''case E['a-b']: { throw new Error('Not implemented yet: E['a-b'] case') }'']"
proof -
  have n11: "\<not> isIntersection ex_ctx (TsType 11)"
    by (simp add: ex_simps)
  have ct11: "caseTest ex_ctx (Some ''E'') (TsType 11) = ''E['a-b']''"
    by (simp add: caseTest_def ex_simps replaceAll_def singleQuote_def newline_def
          carriageReturn_def)
  have differs: "missingCases ex_ctx (Some ''E'') [Some (TsType 11)] \<noteq>
       [''case E['a-b']: { throw new Error('Not implemented yet: E['a-b'] case') }'']"
    using n11 unfolding missingCases.simps caseClause_def ct11
    by (simp add: replaceAll_def singleQuote_def backslash_def)
  show ?thesis
    by (rule conjI n11 ct11 differs)+
qed

subsection \<open>Only intersection types are missing\<close>

text \<open>
  Claim C10. When the missing variants of a union are all intersection types and the
  switch has a clause, the report is still made and lists them, and its fix inserts after
  the last clause a single newline and nothing else.
\<close>

theorem only_intersections_missing:
  assumes "isUnion ctx (getConstrainedTypeAtLocation ctx (discriminant node))"
      and "\<forall>c \<in> set (cases node). test c \<noteq> None"
      and "cases node \<noteq> []"
  shows "(let missing =
                filter (\<lambda>v. v \<notin> coveredVariants ctx (cases node))
                  (unionTypeParts ctx (getConstrainedTypeAtLocation ctx (discriminant node)))
          in missing \<noteq> [] \<and> (\<forall>t \<in> set missing. isIntersection ctx t) \<longrightarrow>
             checkSwitchExhaustive ctx node =
               [\<lparr> report_node = discriminant node,
                  messageId = SwitchIsNotExhaustive,
                  missingBranches = join '' | '' (map (missingTypeText ctx) missing),
                  suggest =
                    [\<lparr> suggestion_messageId = AddMissingCases,
                       suggestion_fix =
                         Inr (InsertTextAfter (last (cases node)) [newline]) \<rparr>] \<rparr>])"
proof -
  let ?missing = "filter (\<lambda>v. v \<notin> coveredVariants ctx (cases node))
                  (unionTypeParts ctx (getConstrainedTypeAtLocation ctx (discriminant node)))"
  let ?sym = "getSymbolEscapedName ctx (getConstrainedTypeAtLocation ctx (discriminant node))"
  have rep: "checkSwitchExhaustive ctx node =
               (if ?missing = [] then [] else [missingVariantsReport ctx node ?missing])"
    using check_union_no_default [OF assms(1,2)] by (simp add: Let_def)
  have "checkSwitchExhaustive ctx node =
               [\<lparr> report_node = discriminant node,
                  messageId = SwitchIsNotExhaustive,
                  missingBranches = join '' | '' (map (missingTypeText ctx) ?missing),
                  suggest =
                    [\<lparr> suggestion_messageId = AddMissingCases,
                       suggestion_fix =
                         Inr (InsertTextAfter (last (cases node)) [newline]) \<rparr>] \<rparr>]"
    if some: "?missing \<noteq> []" and inter: "\<forall>t \<in> set ?missing. isIntersection ctx t"
  proof -
    from inter have "filter (\<lambda>t. \<not> isIntersection ctx t) ?missing = []"
      unfolding filter_empty_conv by blast
    then have none: "missingCases ctx ?sym (map Some ?missing) = []"
      by (simp add: missingCases_types)
    have "fixSwitch ctx node (map Some ?missing) ?sym
          = Inr (InsertTextAfter (last (cases node)) [newline])"
      using assms(3) by (simp add: fixSwitch_def Let_def none last_conv_nth)
    with some show ?thesis
      by (simp add: rep missingBranchesText_def)
  qed
  then show ?thesis
    unfolding Let_def by blast
qed

theorem only_intersections_missing_witness:
  "isIntersection ex_ctx (TsType 21)
   \<and> checkSwitchExhaustive ex_ctx (ex_switch 8 [ex_case 2 2, ex_case 2 12]) =
       [\<lparr> report_node = Expression 8,
          messageId = SwitchIsNotExhaustive,
          missingBranches = ''string & { __brand: void; }'',
          suggest =
            [\<lparr> suggestion_messageId = AddMissingCases,
               suggestion_fix = Inr (InsertTextAfter (ex_case 2 12) [newline]) \<rparr>] \<rparr>]"
proof -
  have u: "isUnion ex_ctx (getConstrainedTypeAtLocation ex_ctx
             (discriminant (ex_switch 8 [ex_case 2 2, ex_case 2 12])))"
    by (simp add: ex_simps)
  have n: "\<forall>c \<in> set (cases (ex_switch 8 [ex_case 2 2, ex_case 2 12])). test c \<noteq> None"
    by (simp add: ex_simps)
  have e: "cases (ex_switch 8 [ex_case 2 2, ex_case 2 12]) \<noteq> []"
    by (simp add: ex_simps)
  have missing:
    "filter (\<lambda>v. v \<notin> coveredVariants ex_ctx (cases (ex_switch 8 [ex_case 2 2, ex_case 2 12])))
       (unionTypeParts ex_ctx
          (getConstrainedTypeAtLocation ex_ctx
             (discriminant (ex_switch 8 [ex_case 2 2, ex_case 2 12]))))
     = [TsType 21]"
    by (simp add: ex_simps)
  have inter: "isIntersection ex_ctx (TsType 21)"
    by (simp add: ex_simps)
  have printed: "missingTypeText ex_ctx (TsType 21) = ''string & { __brand: void; }''"
    by (simp add: missingTypeText_def ex_simps)
  have reported: "checkSwitchExhaustive ex_ctx (ex_switch 8 [ex_case 2 2, ex_case 2 12]) =
       [\<lparr> report_node = Expression 8,
          messageId = SwitchIsNotExhaustive,
          missingBranches = ''string & { __brand: void; }'',
          suggest =
            [\<lparr> suggestion_messageId = AddMissingCases,
               suggestion_fix = Inr (InsertTextAfter (ex_case 2 12) [newline]) \<rparr>] \<rparr>]"
    using only_intersections_missing [OF u n e, unfolded Let_def missing] inter
    by (simp add: printed ex_switch_def)
  show ?thesis
    by (rule conjI inter reported)+
qed

end
